theory Spec2Isabelle
  imports Main "HOL-Library.Char_ord" "HOL-Library.List_Lexorder" "HOL-Library.Product_Lexorder"
begin

section \<open>Strings\<close>

text \<open>
  A Python \<open>str\<close> is modelled as a \<open>string\<close> (a list of characters); \<open>len\<close> is
  \<open>length\<close>, \<open>+\<close> is \<open>@\<close>, and \<open><\<close> on strings is the lexicographic order on
  character codes, as in Python. File names are taken to be ASCII, so \<open>str.lower\<close>
  only moves \<open>A..Z\<close> to \<open>a..z\<close>.
\<close>

definition nl :: string where
  "nl = [CHR 0x0A]"

definition backticks :: string where
  "backticks = [CHR 0x60, CHR 0x60, CHR 0x60]"

text \<open>\<open>sep.join(xs)\<close>\<close>

fun join :: "string \<Rightarrow> string list \<Rightarrow> string" where
  "join sep [] = []"
| "join sep [x] = x"
| "join sep (x # y # ys) = x @ sep @ join sep (y # ys)"

definition lower_char :: "char \<Rightarrow> char" where
  "lower_char c =
     (case map_of (zip ''ABCDEFGHIJKLMNOPQRSTUVWXYZ'' ''abcdefghijklmnopqrstuvwxyz'') c of
        Some l \<Rightarrow> l
      | None \<Rightarrow> c)"

definition lower :: "string \<Rightarrow> string" where
  "lower s = map lower_char s"

text \<open>\<open>s.startswith(p)\<close> and \<open>s.endswith(p)\<close>\<close>

definition startswith :: "string \<Rightarrow> string \<Rightarrow> bool" where
  "startswith s p = (take (length p) s = p)"

definition endswith :: "string \<Rightarrow> string \<Rightarrow> bool" where
  "endswith s p = (length p \<le> length s \<and> drop (length s - length p) s = p)"

text \<open>\<open>c.isalnum()\<close> on ASCII\<close>

definition isalnum :: "char \<Rightarrow> bool" where
  "isalnum c =
     ((CHR ''0'' \<le> c \<and> c \<le> CHR ''9'') \<or> (CHR ''a'' \<le> c \<and> c \<le> CHR ''z'')
      \<or> (CHR ''A'' \<le> c \<and> c \<le> CHR ''Z''))"

text \<open>\<open>"--" in s\<close> and \<open>s.replace("--", "-")\<close> (left to right, non-overlapping)\<close>

fun has_double_hyphen :: "string \<Rightarrow> bool" where
  "has_double_hyphen (a # b # s) =
     ((a = CHR ''-'' \<and> b = CHR ''-'') \<or> has_double_hyphen (b # s))"
| "has_double_hyphen s = False"

fun replace_double_hyphen :: "string \<Rightarrow> string" where
  "replace_double_hyphen (a # b # s) =
     (if a = CHR ''-'' \<and> b = CHR ''-'' then CHR ''-'' # replace_double_hyphen s
      else a # replace_double_hyphen (b # s))"
| "replace_double_hyphen s = s"

lemma length_replace_double_hyphen_le:
  "length (replace_double_hyphen s) \<le> length s"
  by (induction s rule: replace_double_hyphen.induct) auto

lemma length_replace_double_hyphen_less:
  "has_double_hyphen s \<Longrightarrow> length (replace_double_hyphen s) < length s"
proof (induction s rule: replace_double_hyphen.induct)
  case (1 a b s)
  then show ?case
    using length_replace_double_hyphen_le [of s] by auto
qed simp_all

text \<open>\<open>while "--" in anchor: anchor = anchor.replace("--", "-")\<close>\<close>

function collapse_hyphens :: "string \<Rightarrow> string" where
  "collapse_hyphens s =
     (if has_double_hyphen s then collapse_hyphens (replace_double_hyphen s) else s)"
  by pat_completeness auto
termination
  by (relation "measure length") (auto simp: length_replace_double_hyphen_less)

declare collapse_hyphens.simps [simp del]

text \<open>\<open>s.strip("-")\<close>\<close>

definition strip_hyphens :: "string \<Rightarrow> string" where
  "strip_hyphens s =
     rev (dropWhile (\<lambda>c. c = CHR ''-'') (rev (dropWhile (\<lambda>c. c = CHR ''-'') s)))"

section \<open>Paths\<close>

text \<open>
  A path below the repository root is the list of its components, so
  \<open>len(relative_path.parts)\<close> is \<open>length\<close>, \<open>path.name\<close> is the last component and
  \<open>str(path.relative_to(root))\<close> joins the components with \<open>/\<close>.
\<close>

type_synonym path = "string list"

definition path_name :: "path \<Rightarrow> string" where
  "path_name p = (if p = [] then [] else last p)"

definition path_str :: "path \<Rightarrow> string" where
  "path_str p = join ''/'' p"

section \<open>markdown_generator.py\<close>

record FileContent =
  path :: path
  relative_path :: string
  content :: string
  language :: string
  is_pdf :: bool

record MarkdownGenerator =
  repo_name :: string
  include_tree :: bool
  include_toc :: bool
  max_tree_depth :: "int option"
  files :: "FileContent list"
  tree :: string

definition MarkdownGenerator_init ::
  "string \<Rightarrow> bool \<Rightarrow> bool \<Rightarrow> int option \<Rightarrow> MarkdownGenerator" where
  "MarkdownGenerator_init name with_tree with_toc depth =
     \<lparr>repo_name = name, include_tree = with_tree, include_toc = with_toc,
      max_tree_depth = depth, files = [], tree = []\<rparr>"

definition set_tree :: "MarkdownGenerator \<Rightarrow> string \<Rightarrow> MarkdownGenerator" where
  "set_tree g t = g\<lparr>tree := t\<rparr>"

definition add_file :: "MarkdownGenerator \<Rightarrow> FileContent \<Rightarrow> MarkdownGenerator" where
  "add_file g fc = g\<lparr>files := files g @ [fc]\<rparr>"

definition add_files :: "MarkdownGenerator \<Rightarrow> FileContent list \<Rightarrow> MarkdownGenerator" where
  "add_files g fcs = g\<lparr>files := files g @ fcs\<rparr>"

definition generate_title :: "MarkdownGenerator \<Rightarrow> string" where
  "generate_title g = ''# Repository: '' @ repo_name g"

definition generate_tree_section :: "MarkdownGenerator \<Rightarrow> string" where
  "generate_tree_section g =
     join nl [''## Repository Structure'', [], backticks, tree g, backticks]"

definition create_anchor :: "string \<Rightarrow> string" where
  "create_anchor text =
     strip_hyphens (collapse_hyphens
       (map (\<lambda>c. if isalnum c \<or> c = CHR ''-'' then c else CHR ''-'') (lower text)))"

definition generate_toc :: "MarkdownGenerator \<Rightarrow> string" where
  "generate_toc g =
     join nl ([''## Table of Contents'', []] @
       map (\<lambda>fc. ''- ['' @ relative_path fc @ ''](#'' @ create_anchor (relative_path fc) @ '')'')
         (files g))"

definition format_file :: "FileContent \<Rightarrow> string" where
  "format_file fc =
     join nl ([''### '' @ path_name (path fc),
               ''**Path:** '' @ [CHR 0x60] @ relative_path fc @ [CHR 0x60]] @
              (if is_pdf fc then [''**Type:** PDF (extracted text)''] else []) @
              [[]] @
              (if language fc = ''markdown''
               then [backticks @ language fc, content fc, backticks]
               else [backticks @ language fc, content fc, backticks]))"

definition generate_files_section :: "MarkdownGenerator \<Rightarrow> string" where
  "generate_files_section g =
     join nl ([''## File Contents'', []] @ concat (map (\<lambda>fc. [format_file fc, []]) (files g)))"

text \<open>The sections that precede the file contents, in \<open>generate\<close> and \<open>generate_chunked\<close> alike.\<close>

definition header_parts :: "MarkdownGenerator \<Rightarrow> string list" where
  "header_parts g =
     [generate_title g] @
     (if include_tree g \<and> tree g \<noteq> [] then [generate_tree_section g] else []) @
     (if include_toc g then [generate_toc g] else [])"

definition generate :: "MarkdownGenerator \<Rightarrow> string" where
  "generate g = join (nl @ nl) (header_parts g @ [generate_files_section g])"

definition header_with_section :: "MarkdownGenerator \<Rightarrow> string" where
  "header_with_section g = join (nl @ nl) (header_parts g) @ nl @ nl @ ''## File Contents'' @ nl"

definition continuation_header :: "MarkdownGenerator \<Rightarrow> string" where
  "continuation_header g =
     ''# Repository: '' @ repo_name g @ '' (continued)'' @ nl @ nl @
     ''## File Contents (continued)'' @ nl"

definition file_markdown :: "FileContent \<Rightarrow> string" where
  "file_markdown fc = format_file fc @ nl"

text \<open>
  The loop of \<open>generate_chunked\<close> over \<open>self._files\<close>. The state is \<open>chunks\<close> (kept as
  the part lists that are joined when a chunk is saved), \<open>current_chunk_parts\<close> and
  \<open>current_chunk_size\<close>; \<open>max_chars\<close> is a Python \<open>int\<close>.
\<close>

fun chunk_loop ::
  "MarkdownGenerator \<Rightarrow> int \<Rightarrow> FileContent list \<Rightarrow> string list list \<Rightarrow> string list \<Rightarrow> nat
     \<Rightarrow> string list list \<times> string list \<times> nat" where
  "chunk_loop g max_chars [] chunks parts sz = (chunks, parts, sz)"
| "chunk_loop g max_chars (fc # fcs) chunks parts sz =
     (let file_size = length (file_markdown fc) in
      if int (sz + file_size) > max_chars \<and> parts \<noteq> [] then
        chunk_loop g max_chars fcs
          (if length parts > 1 \<or> sz > length (header_with_section g)
           then chunks @ [parts] else chunks)
          [continuation_header g, file_markdown fc]
          (length (continuation_header g) + file_size)
      else
        chunk_loop g max_chars fcs chunks (parts @ [file_markdown fc]) (sz + file_size))"

definition chunk_parts :: "MarkdownGenerator \<Rightarrow> int \<Rightarrow> string list list" where
  "chunk_parts g max_chars =
     (case chunk_loop g max_chars (files g) [] [header_with_section g]
             (length (header_with_section g)) of
        (chunks, parts, sz) \<Rightarrow> if parts \<noteq> [] then chunks @ [parts] else chunks)"

definition generate_chunked :: "MarkdownGenerator \<Rightarrow> int \<Rightarrow> string list" where
  "generate_chunked g max_chars = map (join nl) (chunk_parts g max_chars)"

section \<open>The repository on disk\<close>

text \<open>
  What \<open>Path.iterdir\<close>, \<open>is_dir\<close> and \<open>is_file\<close> report. A directory carries its
  name, whether listing it succeeds (\<open>False\<close>: \<open>iterdir\<close> raises \<open>PermissionError\<close>) and
  its entries in the order \<open>iterdir\<close> yields them, which the file system chooses.
  \<open>Special\<close> is an entry that is neither a directory nor a regular file.
\<close>

datatype entry = File string | Dir string bool "entry list" | Special string

datatype directory = Directory (dir_name: string) (readable: bool) (entries: "entry list")

fun entry_name :: "entry \<Rightarrow> string" where
  "entry_name (File n) = n"
| "entry_name (Dir n r es) = n"
| "entry_name (Special n) = n"

fun is_dir :: "entry \<Rightarrow> bool" where
  "is_dir (Dir n r es) = True"
| "is_dir e = False"

text \<open>
  \<open>PurePath.suffix\<close> of a file name: the part from the last dot on, unless the name has
  no dot, or the last dot is the first or the last character.
\<close>

definition path_suffix :: "string \<Rightarrow> string" where
  "path_suffix name =
     (if CHR ''.'' \<notin> set name then []
      else let i = length name - Suc (length (takeWhile (\<lambda>c. c \<noteq> CHR ''.'') (rev name)))
           in if 0 < i \<and> i < length name - 1 then drop i name else [])"

section \<open>file_discovery.py\<close>

definition DEFAULT_TEXT_EXTENSIONS :: "string set" where
  "DEFAULT_TEXT_EXTENSIONS =
     {''.py'', ''.pyw'', ''.pyi'', ''.js'', ''.mjs'', ''.cjs'', ''.ts'', ''.tsx'', ''.mts'',
      ''.jsx'', ''.java'', ''.c'', ''.h'', ''.cpp'', ''.hpp'', ''.cc'', ''.hh'', ''.cs'',
      ''.go'', ''.rs'', ''.rb'', ''.php'', ''.swift'', ''.kt'', ''.kts'', ''.scala'', ''.r'',
      ''.R'', ''.lua'', ''.pl'', ''.pm'', ''.sh'', ''.bash'', ''.zsh'', ''.fish'', ''.ps1'',
      ''.psm1'', ''.bat'', ''.cmd'', ''.html'', ''.htm'', ''.xhtml'', ''.css'', ''.scss'',
      ''.sass'', ''.less'', ''.vue'', ''.svelte'', ''.json'', ''.jsonl'', ''.json5'',
      ''.yaml'', ''.yml'', ''.toml'', ''.xml'', ''.xsl'', ''.xslt'', ''.ini'', ''.cfg'',
      ''.conf'', ''.env'', ''.env.example'', ''.env.local'', ''.properties'', ''.md'',
      ''.markdown'', ''.mdx'', ''.rst'', ''.txt'', ''.text'', ''.adoc'', ''.asciidoc'',
      ''.dockerfile'', ''.makefile'', ''.cmake'', ''.gradle'', ''.tf'', ''.tfvars'', ''.sql'',
      ''.graphql'', ''.gql'', ''.proto'', ''.csv'', ''.tsv'', ''.gitignore'',
      ''.gitattributes'', ''.editorconfig'', ''.prettierrc'', ''.eslintrc''}"

definition DEFAULT_INCLUDE_FILENAMES :: "string set" where
  "DEFAULT_INCLUDE_FILENAMES =
     {''Dockerfile'', ''Makefile'', ''Jenkinsfile'', ''Vagrantfile'', ''Procfile'',
      ''Gemfile'', ''Rakefile'', ''LICENSE'', ''CHANGELOG'', ''CONTRIBUTING'', ''AUTHORS'',
      ''CODEOWNERS'', ''README'', ''.gitignore'', ''.gitattributes'', ''.dockerignore'',
      ''.editorconfig'', ''.nvmrc'', ''.python-version'', ''.ruby-version'', ''.node-version''}"

definition DEFAULT_EXCLUDE_DIRS :: "string set" where
  "DEFAULT_EXCLUDE_DIRS =
     {''.git'', ''.svn'', ''.hg'', ''.bzr'', ''__pycache__'', ''.pytest_cache'',
      ''.mypy_cache'', ''.tox'', ''.nox'', ''.eggs'', ''*.egg-info'', ''.venv'', ''venv'',
      ''env'', ''.env'', ''node_modules'', ''bower_components'', ''.next'', ''.nuxt'',
      ''dist'', ''build'', ''target'', ''.idea'', ''.vscode'', ''.vs'', ''*.xcodeproj'',
      ''*.xcworkspace'', ''.gradle'', ''.cache'', ''.parcel-cache'', ''coverage'',
      ''.nyc_output'', ''htmlcov''}"

record FileDiscovery =
  root_path :: directory
  text_extensions :: "string set"
  include_filenames :: "string set"
  exclude_dirs :: "string set"
  include_pdf :: bool

text \<open>
  The constructor. An argument that is \<open>None\<close> or an empty set is falsy, so \<open>x or DEFAULT\<close>
  takes the default for both.
\<close>

definition or_default :: "string set option \<Rightarrow> string set \<Rightarrow> string set" where
  "or_default arg dflt = (case arg of None \<Rightarrow> dflt | Some s \<Rightarrow> if s = {} then dflt else s)"

definition FileDiscovery_init ::
  "directory \<Rightarrow> string set option \<Rightarrow> string set option \<Rightarrow> string set option \<Rightarrow> bool
     \<Rightarrow> string set option \<Rightarrow> FileDiscovery" where
  "FileDiscovery_init root exts names excl pdf custom =
     (let exts1 = or_default exts DEFAULT_TEXT_EXTENSIONS;
          exts2 = (case custom of None \<Rightarrow> exts1
                   | Some c \<Rightarrow> if c \<noteq> {} then exts1 \<union> c else exts1);
          exts3 = (if pdf then insert ''.pdf'' exts2 else exts2)
      in \<lparr>root_path = root, text_extensions = exts3,
          include_filenames = or_default names DEFAULT_INCLUDE_FILENAMES,
          exclude_dirs = or_default excl DEFAULT_EXCLUDE_DIRS,
          include_pdf = pdf\<rparr>)"

definition should_exclude_dir :: "FileDiscovery \<Rightarrow> string \<Rightarrow> bool" where
  "should_exclude_dir fd name =
     (name \<in> exclude_dirs fd \<or>
      (\<exists>pattern \<in> exclude_dirs fd. CHR ''*'' \<in> set pattern \<and>
         ((startswith pattern ''*'' \<and> endswith name (drop 1 pattern)) \<or>
          (endswith pattern ''*'' \<and> startswith name (butlast pattern)))))"

text \<open>\<open>_is_text_file\<close> and \<open>_is_pdf_file\<close> read only \<open>file_path.name\<close> and its suffix.\<close>

definition is_text_file :: "FileDiscovery \<Rightarrow> string \<Rightarrow> bool" where
  "is_text_file fd name =
     (if name \<in> include_filenames fd then True
      else let sfx = lower (path_suffix name) in
        if sfx \<in> text_extensions fd then True
        else sfx = [] \<and> name \<in> include_filenames fd)"

definition is_pdf_file :: "string \<Rightarrow> bool" where
  "is_pdf_file name = (lower (path_suffix name) = ''.pdf'')"

text \<open>
  \<open>_walk_directory\<close>: the files below a directory, in the order the generator yields
  them, as paths relative to the root. \<open>walk_entry\<close> is the body of its loop.
\<close>

fun walk_directory :: "FileDiscovery \<Rightarrow> path \<Rightarrow> bool \<Rightarrow> entry list \<Rightarrow> path list"
  and walk_entries :: "FileDiscovery \<Rightarrow> path \<Rightarrow> entry list \<Rightarrow> path list"
  and walk_entry :: "FileDiscovery \<Rightarrow> path \<Rightarrow> entry \<Rightarrow> path list" where
  "walk_directory fd d r es = (if r then walk_entries fd d es else [])"
| "walk_entries fd d [] = []"
| "walk_entries fd d (e # es) = walk_entry fd d e @ walk_entries fd d es"
| "walk_entry fd d (Dir n r es) =
     (if \<not> should_exclude_dir fd n then walk_directory fd (d @ [n]) r es else [])"
| "walk_entry fd d (File n) = [d @ [n]]"
| "walk_entry fd d (Special n) = []"

text \<open>
  The loop of \<open>discover_files\<close> over the walk; the state is \<open>files\<close> and \<open>readme_file\<close>.
\<close>

fun discover_loop ::
  "FileDiscovery \<Rightarrow> path list \<Rightarrow> path list \<Rightarrow> path option \<Rightarrow> path list \<times> path option" where
  "discover_loop fd [] fs readme_file = (fs, readme_file)"
| "discover_loop fd (p # ps) fs readme_file =
     (if startswith (lower (path_name p)) ''readme'' \<and> length p = 1 then
        (if readme_file = None \<or> lower (path_name p) = ''readme.md''
         then discover_loop fd ps fs (Some p)
         else discover_loop fd ps (fs @ [p]) readme_file)
      else if is_text_file fd (path_name p) then discover_loop fd ps (fs @ [p]) readme_file
      else discover_loop fd ps fs readme_file)"

definition sort_files :: "path list \<Rightarrow> path list" where
  "sort_files fs = sort_key (\<lambda>p. lower (path_str p)) fs"

definition discover_files :: "FileDiscovery \<Rightarrow> path list" where
  "discover_files fd =
     (case discover_loop fd
        (walk_directory fd [] (readable (root_path fd)) (entries (root_path fd))) [] None of
        (fs, readme_file) \<Rightarrow>
          (case readme_file of None \<Rightarrow> sort_files fs | Some r \<Rightarrow> r # sort_files fs))"

definition get_text_files :: "FileDiscovery \<Rightarrow> path list" where
  "get_text_files fd = filter (\<lambda>p. \<not> is_pdf_file (path_name p)) (discover_files fd)"

definition get_pdf_files :: "FileDiscovery \<Rightarrow> path list" where
  "get_pdf_files fd =
     (if \<not> include_pdf fd then []
      else filter (\<lambda>p. is_pdf_file (path_name p)) (discover_files fd))"

text \<open>
  The connectors of the tree view. The box-drawing characters are written as their UTF-8
  bytes, so the length of a tree line counts bytes.
\<close>

definition connector_last :: string where
  "connector_last = [CHR 0xE2, CHR 0x94, CHR 0x94, CHR 0xE2, CHR 0x94, CHR 0x80,
                     CHR 0xE2, CHR 0x94, CHR 0x80, CHR 0x20]"

definition connector_mid :: string where
  "connector_mid = [CHR 0xE2, CHR 0x94, CHR 0x9C, CHR 0xE2, CHR 0x94, CHR 0x80,
                    CHR 0xE2, CHR 0x94, CHR 0x80, CHR 0x20]"

definition extension_last :: string where
  "extension_last = ''    ''"

definition extension_mid :: string where
  "extension_mid = [CHR 0xE2, CHR 0x94, CHR 0x82, CHR 0x20, CHR 0x20, CHR 0x20]"

definition tree_sort_key :: "entry \<Rightarrow> bool \<times> string" where
  "tree_sort_key e = (\<not> is_dir e, lower (entry_name e))"

definition tree_entries :: "FileDiscovery \<Rightarrow> entry list \<Rightarrow> entry list" where
  "tree_entries fd es =
     filter (\<lambda>e. \<not> (is_dir e \<and> should_exclude_dir fd (entry_name e))) (sort_key tree_sort_key es)"

lemma tree_entries_subset: "set (tree_entries fd es) \<subseteq> set es"
  by (auto simp: tree_entries_def)

text \<open>
  \<open>_build_tree\<close>, returning the lines it appends. \<open>build_entry\<close> is the body of its loop
  for one entry: the line of a directory followed by the lines of its subtree, or the line
  of a file that is shown, or nothing.
\<close>

function build_tree ::
    "FileDiscovery \<Rightarrow> bool \<Rightarrow> entry list \<Rightarrow> string \<Rightarrow> nat \<Rightarrow> int option \<Rightarrow> string list"
  and build_entry ::
    "FileDiscovery \<Rightarrow> string \<Rightarrow> nat \<Rightarrow> int option \<Rightarrow> bool \<Rightarrow> entry \<Rightarrow> string list" where
  "build_tree fd r es prefix current_depth max_depth =
     (if (case max_depth of None \<Rightarrow> False | Some m \<Rightarrow> int current_depth \<ge> m) then []
      else if \<not> r then []
      else concat (map (\<lambda>(i, e).
             build_entry fd prefix current_depth max_depth
               (i = length (tree_entries fd es) - 1) e)
             (enumerate 0 (tree_entries fd es))))"
| "build_entry fd prefix current_depth max_depth is_last (Dir n r es) =
     (prefix @ (if is_last then connector_last else connector_mid) @ n @ ''/'') #
     build_tree fd r es (prefix @ (if is_last then extension_last else extension_mid))
       (current_depth + 1) max_depth"
| "build_entry fd prefix current_depth max_depth is_last (File n) =
     (if is_text_file fd n \<or> (include_pdf fd \<and> is_pdf_file n)
      then [prefix @ (if is_last then connector_last else connector_mid) @ n] else [])"
| "build_entry fd prefix current_depth max_depth is_last (Special n) =
     (if is_text_file fd n \<or> (include_pdf fd \<and> is_pdf_file n)
      then [prefix @ (if is_last then connector_last else connector_mid) @ n] else [])"
  by pat_completeness auto
termination
proof (relation "measure (\<lambda>x. case x of
          Inl (fd, r, es, rest) \<Rightarrow> 2 * size_list size es + 1
        | Inr (fd, prefix, d, m, is_last, e) \<Rightarrow> 2 * size e)")
  show "wf (measure (\<lambda>x. case x of
          Inl (fd, r, es, rest) \<Rightarrow> 2 * size_list size es + 1
        | Inr (fd, prefix, d, m, is_last, e) \<Rightarrow> 2 * size e))"
    by simp
next
  fix fd r es prefix current_depth max_depth x xa y
  assume "x \<in> set (enumerate 0 (tree_entries fd es))" and "(xa, y) = x"
  then have "y \<in> set es"
    using tree_entries_subset [of fd es]
    by (auto simp: enumerate_eq_zip dest!: set_zip_rightD)
  then have "size y \<le> size_list size es"
    by (simp add: size_list_estimation')
  then show "(Inr (fd, prefix, current_depth, max_depth,
                 xa = length (tree_entries fd es) - 1, y),
              Inl (fd, r, es, prefix, current_depth, max_depth))
             \<in> measure (\<lambda>x. case x of
                  Inl (fd, r, es, rest) \<Rightarrow> 2 * size_list size es + 1
                | Inr (fd, prefix, d, m, is_last, e) \<Rightarrow> 2 * size e)"
    by simp
next
  fix fd prefix current_depth max_depth is_last n r es
  show "(Inl (fd, r, es, prefix @ (if is_last then extension_last else extension_mid),
              current_depth + 1, max_depth),
         Inr (fd, prefix, current_depth, max_depth, is_last, Dir n r es))
        \<in> measure (\<lambda>x. case x of
             Inl (fd, r, es, rest) \<Rightarrow> 2 * size_list size es + 1
           | Inr (fd, prefix, d, m, is_last, e) \<Rightarrow> 2 * size e)"
    by simp
qed

definition generate_tree :: "FileDiscovery \<Rightarrow> int option \<Rightarrow> string" where
  "generate_tree fd max_depth =
     join nl ((dir_name (root_path fd) @ ''/'') #
       build_tree fd (readable (root_path fd)) (entries (root_path fd)) [] 0 max_depth)"

section \<open>text_reader.py\<close>

definition ENCODING_FALLBACKS :: "string list" where
  "ENCODING_FALLBACKS = [''utf-8'', ''utf-8-sig'', ''latin-1'', ''cp1252'', ''ascii'']"

definition LANGUAGE_MAP :: "(string \<times> string) list" where
  "LANGUAGE_MAP =
     [(''.py'', ''python''), (''.pyw'', ''python''), (''.pyi'', ''python''),
      (''.js'', ''javascript''), (''.mjs'', ''javascript''), (''.cjs'', ''javascript''),
      (''.jsx'', ''jsx''), (''.ts'', ''typescript''), (''.tsx'', ''tsx''),
      (''.mts'', ''typescript''), (''.html'', ''html''), (''.htm'', ''html''),
      (''.xhtml'', ''html''), (''.css'', ''css''), (''.scss'', ''scss''),
      (''.sass'', ''sass''), (''.less'', ''less''), (''.vue'', ''vue''),
      (''.svelte'', ''svelte''), (''.json'', ''json''), (''.jsonl'', ''json''),
      (''.json5'', ''json5''), (''.yaml'', ''yaml''), (''.yml'', ''yaml''),
      (''.toml'', ''toml''), (''.xml'', ''xml''), (''.xsl'', ''xml''), (''.xslt'', ''xml''),
      (''.sh'', ''bash''), (''.bash'', ''bash''), (''.zsh'', ''zsh''), (''.fish'', ''fish''),
      (''.ps1'', ''powershell''), (''.psm1'', ''powershell''), (''.bat'', ''batch''),
      (''.cmd'', ''batch''), (''.java'', ''java''), (''.c'', ''c''), (''.h'', ''c''),
      (''.cpp'', ''cpp''), (''.hpp'', ''cpp''), (''.cc'', ''cpp''), (''.hh'', ''cpp''),
      (''.cs'', ''csharp''), (''.go'', ''go''), (''.rs'', ''rust''), (''.rb'', ''ruby''),
      (''.php'', ''php''), (''.swift'', ''swift''), (''.kt'', ''kotlin''),
      (''.kts'', ''kotlin''), (''.scala'', ''scala''), (''.r'', ''r''), (''.R'', ''r''),
      (''.lua'', ''lua''), (''.pl'', ''perl''), (''.pm'', ''perl''), (''.md'', ''markdown''),
      (''.markdown'', ''markdown''), (''.mdx'', ''mdx''), (''.rst'', ''rst''),
      (''.txt'', ''text''), (''.text'', ''text''), (''.adoc'', ''asciidoc''),
      (''.asciidoc'', ''asciidoc''), (''.ini'', ''ini''), (''.cfg'', ''ini''),
      (''.conf'', ''ini''), (''.env'', ''dotenv''), (''.properties'', ''properties''),
      (''.dockerfile'', ''dockerfile''), (''.makefile'', ''makefile''),
      (''.cmake'', ''cmake''), (''.gradle'', ''gradle''), (''.tf'', ''terraform''),
      (''.tfvars'', ''terraform''), (''.sql'', ''sql''), (''.graphql'', ''graphql''),
      (''.gql'', ''graphql''), (''.proto'', ''protobuf''), (''.csv'', ''csv''),
      (''.tsv'', ''tsv''), (''.gitignore'', ''gitignore'')]"

definition FILENAME_LANGUAGE_MAP :: "(string \<times> string) list" where
  "FILENAME_LANGUAGE_MAP =
     [(''Dockerfile'', ''dockerfile''), (''Makefile'', ''makefile''),
      (''Jenkinsfile'', ''groovy''), (''Vagrantfile'', ''ruby''), (''Procfile'', ''yaml''),
      (''Gemfile'', ''ruby''), (''Rakefile'', ''ruby''), (''.gitignore'', ''gitignore''),
      (''.gitattributes'', ''gitattributes''), (''.dockerignore'', ''dockerignore''),
      (''.editorconfig'', ''editorconfig'')]"

text \<open>
  What the operating system answers for one path while it is read: \<open>exists()\<close>,
  \<open>is_file()\<close>, \<open>stat().st_size\<close> (\<open>None\<close>: \<open>stat\<close> raises \<open>OSError\<close>),
  \<open>read_text(encoding)\<close>, \<open>read_bytes().decode("utf-8", errors="replace")\<close>
  (\<open>Inl\<close>: the text of the \<open>OSError\<close>) and the outcome of the Docling conversion.
\<close>

datatype read_result = Decoded string | UnicodeError | OSError string

datatype pdf_result = Exported string | ImportError | ConversionError string

record file_info =
  f_exists :: bool
  f_is_file :: bool
  st_size :: "nat option"
  read_text :: "string \<Rightarrow> read_result"
  read_bytes :: "string + string"
  pdf_convert :: pdf_result

text \<open>\<open>str(n)\<close> of a natural number, as an f-string prints it\<close>

function str_nat :: "nat \<Rightarrow> string" where
  "str_nat n =
     (if n < 10 then [''0123456789'' ! n] else str_nat (n div 10) @ [''0123456789'' ! (n mod 10)])"
  by pat_completeness auto
termination
  by (relation "measure id") auto

declare str_nat.simps [simp del]

text \<open>\<open>sub in s\<close>\<close>

fun contains :: "string \<Rightarrow> string \<Rightarrow> bool" where
  "contains [] sub = (sub = [])"
| "contains (c # s) sub = (startswith (c # s) sub \<or> contains s sub)"

record TextReader =
  max_file_size :: "int option"

text \<open>The loop of \<open>read_file\<close> over the encodings, and the lossy decoding after it.\<close>

fun try_encodings :: "file_info \<Rightarrow> string list \<Rightarrow> string option" where
  "try_encodings fi [] =
     (case read_bytes fi of
        Inr c \<Rightarrow> Some c
      | Inl e \<Rightarrow> Some (''[Error reading file: '' @ e @ '']''))"
| "try_encodings fi (encoding # encodings) =
     (case read_text fi encoding of
        Decoded c \<Rightarrow> Some c
      | UnicodeError \<Rightarrow> try_encodings fi encodings
      | OSError e \<Rightarrow> Some (''[Error reading file: '' @ e @ '']''))"

definition read_file :: "TextReader \<Rightarrow> file_info \<Rightarrow> string option" where
  "read_file tr fi =
     (if \<not> f_exists fi then None
      else if \<not> f_is_file fi then None
      else case max_file_size tr of
        None \<Rightarrow> try_encodings fi ENCODING_FALLBACKS
      | Some m \<Rightarrow>
          (case st_size fi of
             None \<Rightarrow> None
           | Some sz \<Rightarrow>
               if int sz > m then Some (''[File too large: '' @ str_nat sz @ '' bytes]'')
               else try_encodings fi ENCODING_FALLBACKS))"

text \<open>
  \<open>get_language_identifier\<close>; \<open>guess_type\<close> stands for \<open>mimetypes.guess_type\<close>, which
  reads the system's mimetype database.
\<close>

definition get_language_identifier :: "(string \<Rightarrow> string option) \<Rightarrow> path \<Rightarrow> string" where
  "get_language_identifier guess_type p =
     (case map_of FILENAME_LANGUAGE_MAP (path_name p) of
        Some l \<Rightarrow> l
      | None \<Rightarrow>
         (case map_of LANGUAGE_MAP (lower (path_suffix (path_name p))) of
            Some l \<Rightarrow> l
          | None \<Rightarrow>
             (case guess_type (path_str p) of
                None \<Rightarrow> []
              | Some mime_type \<Rightarrow>
                  if mime_type = [] then []
                  else if contains mime_type ''python'' then ''python''
                  else if contains mime_type ''javascript'' then ''javascript''
                  else if contains mime_type ''json'' then ''json''
                  else if contains mime_type ''xml'' then ''xml''
                  else if contains mime_type ''html'' then ''html''
                  else if contains mime_type ''css'' then ''css''
                  else [])))"

section \<open>pdf_reader.py\<close>

record PDFReader =
  is_available :: bool

definition docling_missing :: string where
  "docling_missing =
     ''Docling is not installed. Install with: uv pip install '' @ [CHR 0x27] @
     ''git-2-markdown[pdf]'' @ [CHR 0x27]"

text \<open>\<open>read_pdf\<close>: \<open>Inl msg\<close> is \<open>PDFReaderError(msg)\<close> raised.\<close>

definition read_pdf :: "PDFReader \<Rightarrow> path \<Rightarrow> file_info \<Rightarrow> string + string option" where
  "read_pdf pr p fi =
     (if \<not> f_exists fi then Inr None
      else if \<not> f_is_file fi then Inr None
      else if lower (path_suffix (path_name p)) \<noteq> ''.pdf'' then Inr None
      else if \<not> is_available pr then Inl (''Failed to extract PDF content: '' @ docling_missing)
      else case pdf_convert fi of
        Exported markdown_content \<Rightarrow> Inr (Some markdown_content)
      | ImportError \<Rightarrow> Inl docling_missing
      | ConversionError e \<Rightarrow> Inl (''Failed to extract PDF content: '' @ e))"

definition read_pdf_safe :: "PDFReader \<Rightarrow> path \<Rightarrow> file_info \<Rightarrow> string" where
  "read_pdf_safe pr p fi =
     (case read_pdf pr p fi of
        Inr None \<Rightarrow> ''[Failed to read PDF file]''
      | Inr (Some c) \<Rightarrow> c
      | Inl e \<Rightarrow> ''[PDF extraction error: '' @ e @ '']'')"

section \<open>converter.py\<close>

text \<open>
  The fields of \<open>ConverterConfig\<close> carry the prefix \<open>config_\<close>, since three of them share
  their names with fields of the classes above.
\<close>

record ConverterConfig =
  config_include_pdf :: bool
  config_include_tree :: bool
  config_include_toc :: bool
  config_max_tree_depth :: "int option"
  config_max_file_size :: "int option"
  config_custom_extensions :: "string set option"
  config_exclude_dirs :: "string set option"
  config_split_output :: bool
  config_max_chars_per_file :: int

definition ConverterConfig_default :: ConverterConfig where
  "ConverterConfig_default =
     \<lparr>config_include_pdf = False, config_include_tree = True, config_include_toc = False,
      config_max_tree_depth = None, config_max_file_size = None,
      config_custom_extensions = None, config_exclude_dirs = None,
      config_split_output = False, config_max_chars_per_file = 100000\<rparr>"

record GitToMarkdownConverter =
  config :: ConverterConfig
  text_reader :: TextReader
  pdf_reader :: "PDFReader option"

text \<open>
  The constructor; \<open>docling\<close> says whether the optional package is installed, which the
  \<open>PDFReader\<close> finds out when it is first asked.
\<close>

definition GitToMarkdownConverter_init :: "ConverterConfig \<Rightarrow> bool \<Rightarrow> GitToMarkdownConverter" where
  "GitToMarkdownConverter_init cfg docling =
     \<lparr>config = cfg,
      text_reader = \<lparr>max_file_size = config_max_file_size cfg\<rparr>,
      pdf_reader = (if config_include_pdf cfg then Some \<lparr>is_available = docling\<rparr> else None)\<rparr>"

text \<open>
  What \<open>GitHandler\<close> hands to \<open>convert\<close>, with the state of the files below the root:
  the display name, the root directory, the answers for each path, and the mimetype guess.
\<close>

record repository =
  handler_repo_name :: string
  handler_repo_path :: directory
  file_at :: "path \<Rightarrow> file_info"
  guess_type :: "string \<Rightarrow> string option"

definition discovery :: "GitToMarkdownConverter \<Rightarrow> repository \<Rightarrow> FileDiscovery" where
  "discovery cv repo =
     FileDiscovery_init (handler_repo_path repo) None None (config_exclude_dirs (config cv))
       (config_include_pdf (config cv)) (config_custom_extensions (config cv))"

text \<open>The body of the loop of \<open>convert\<close> over the discovered files.\<close>

definition process_file :: "GitToMarkdownConverter \<Rightarrow> repository \<Rightarrow> path \<Rightarrow> FileContent" where
  "process_file cv repo p =
     (let pdf = (lower (path_suffix (path_name p)) = ''.pdf'') in
      case (if pdf then pdf_reader cv else None) of
        Some pr \<Rightarrow>
          \<lparr>path = p, relative_path = path_str p,
           content = read_pdf_safe pr p (file_at repo p),
           language = ''markdown'', is_pdf = pdf\<rparr>
      | None \<Rightarrow>
          \<lparr>path = p, relative_path = path_str p,
           content = (case read_file (text_reader cv) (file_at repo p) of
                        None \<Rightarrow> ''[Failed to read file]'' | Some c \<Rightarrow> c),
           language = get_language_identifier (guess_type repo) p, is_pdf = pdf\<rparr>)"

text \<open>The generator of \<open>convert\<close> once every discovered file has been added.\<close>

definition convert_generator :: "GitToMarkdownConverter \<Rightarrow> repository \<Rightarrow> MarkdownGenerator" where
  "convert_generator cv repo =
     foldl add_file
       (set_tree
          (MarkdownGenerator_init (handler_repo_name repo) (config_include_tree (config cv))
             (config_include_toc (config cv)) (config_max_tree_depth (config cv)))
          (generate_tree (discovery cv repo) (config_max_tree_depth (config cv))))
       (map (process_file cv repo) (discover_files (discovery cv repo)))"

definition convert :: "GitToMarkdownConverter \<Rightarrow> repository \<Rightarrow> string" where
  "convert cv repo = generate (convert_generator cv repo)"

text \<open>The chunks written when an output path is given and \<open>split_output\<close> is set.\<close>

definition convert_chunks :: "GitToMarkdownConverter \<Rightarrow> repository \<Rightarrow> string list" where
  "convert_chunks cv repo =
     generate_chunked (convert_generator cv repo) (config_max_chars_per_file (config cv))"

section \<open>Predicates used in the statements\<close>

text \<open>
  Predicates on one chunk, given as the list of parts that \<open>"\n".join\<close> turns into the
  chunk string. \<open>seeded\<close>: the first part is the document header or the continuation
  header. \<open>within_limit\<close>: the chunk holds at most one file block after its header, or the
  lengths of its parts sum to at most \<open>max_chars\<close>. \<open>oversized_alone\<close>: the chunk holds at
  most one file block after its header, or none of its blocks is longer than \<open>max_chars\<close>.
\<close>

definition seeded :: "MarkdownGenerator \<Rightarrow> string list \<Rightarrow> bool" where
  "seeded g ps = (ps \<noteq> [] \<and> (hd ps = header_with_section g \<or> hd ps = continuation_header g))"



text \<open>The text that follows the \<open>File Contents\<close> heading in the unsplit document.\<close>

definition files_body :: "FileContent list \<Rightarrow> string" where
  "files_body fcs = concat (map (\<lambda>fc. nl @ file_markdown fc) fcs)"

text \<open>
  Predicates on the discovery. \<open>readme_like\<close> is the test of the first branch of the loop
  of \<open>discover_files\<close>; \<open>walked\<close> is the walk of the root; \<open>promoted_readme\<close> is
  \<open>readme_file\<close> when the loop has ended; \<open>precedes xs a b\<close> says that some occurrence of
  \<open>a\<close> in \<open>xs\<close> comes before some occurrence of \<open>b\<close>.
\<close>

definition readme_like :: "path \<Rightarrow> bool" where
  "readme_like p = (startswith (lower (path_name p)) ''readme'' \<and> length p = 1)"

definition walked :: "FileDiscovery \<Rightarrow> path list" where
  "walked fd = walk_directory fd [] (readable (root_path fd)) (entries (root_path fd))"

definition promoted_readme :: "FileDiscovery \<Rightarrow> path option" where
  "promoted_readme fd = snd (discover_loop fd (walked fd) [] None)"

fun precedes :: "'a list \<Rightarrow> 'a \<Rightarrow> 'a \<Rightarrow> bool" where
  "precedes [] a b = False"
| "precedes (x # xs) a b = ((x = a \<and> b \<in> set xs) \<or> precedes xs a b)"

text \<open>
  The README that the ordering policy names, written from its words and not from the loop:
  among the root-level files of the walk whose name starts with \<open>readme\<close>, the one named
  \<open>readme.md\<close> when lower-cased (the last of them, should the walk yield several), and
  otherwise the first of these files; none when the walk yields no such file.
\<close>

definition readme_md :: "path \<Rightarrow> bool" where
  "readme_md p = (readme_like p \<and> lower (path_name p) = ''readme.md'')"

definition preferred_readme :: "path list \<Rightarrow> path option" where
  "preferred_readme ps =
     (if filter readme_md ps \<noteq> [] then Some (last (filter readme_md ps))
      else if filter readme_like ps \<noteq> [] then Some (hd (filter readme_like ps))
      else None)"

text \<open>
  The value of \<open>readme_file\<close> after the loop has run over \<open>ps\<close> from the value \<open>rd\<close>.
\<close>

definition readme_choice :: "path option \<Rightarrow> path list \<Rightarrow> path option" where
  "readme_choice rd ps =
     (if filter readme_md ps \<noteq> [] then Some (last (filter readme_md ps))
      else case rd of
             Some r \<Rightarrow> Some r
           | None \<Rightarrow> if filter readme_like ps \<noteq> [] then Some (hd (filter readme_like ps))
                     else None)"

section \<open>Example inputs\<close>

definition example_file :: "string \<Rightarrow> FileContent" where
  "example_file n = \<lparr>path = [n], relative_path = n, content = [], language = [], is_pdf = False\<rparr>"

definition example_generator :: "FileContent list \<Rightarrow> MarkdownGenerator" where
  "example_generator fcs = add_files (MarkdownGenerator_init ''r'' True False None) fcs"

definition example_discovery :: "entry list \<Rightarrow> FileDiscovery" where
  "example_discovery es = FileDiscovery_init (Directory ''repo'' True es) None None None False None"

definition example_info :: "nat \<Rightarrow> string \<Rightarrow> file_info" where
  "example_info n c =
     \<lparr>f_exists = True, f_is_file = True, st_size = Some n, read_text = (\<lambda>encoding. Decoded c),
      read_bytes = Inr c, pdf_convert = Exported c\<rparr>"

definition example_repository :: "entry list \<Rightarrow> nat \<Rightarrow> repository" where
  "example_repository es n =
     \<lparr>handler_repo_name = ''repo'', handler_repo_path = Directory ''repo'' True es,
      file_at = (\<lambda>p. example_info n ''TEXT''), guess_type = (\<lambda>s. None)\<rparr>"

lemmas generator_defs =
  example_file_def example_generator_def add_files_def MarkdownGenerator_init_def
  generate_def header_parts_def generate_title_def generate_files_section_def format_file_def
  header_with_section_def continuation_header_def file_markdown_def path_name_def
  nl_def backticks_def

lemmas discovery_defs =
  example_discovery_def FileDiscovery_init_def or_default_def DEFAULT_TEXT_EXTENSIONS_def
  DEFAULT_INCLUDE_FILENAMES_def DEFAULT_EXCLUDE_DIRS_def should_exclude_dir_def
  is_text_file_def is_pdf_file_def path_suffix_def lower_def lower_char_def startswith_def
  endswith_def path_name_def path_str_def discover_files_def sort_files_def

lemmas converter_defs =
  example_info_def example_repository_def discovery_def GitToMarkdownConverter_init_def
  ConverterConfig_default_def

section \<open>Properties of the document assembler\<close>

lemma join_Cons:
  "join sep (x # xs) = x @ concat (map (\<lambda>y. sep @ y) xs)"
  by (induction xs arbitrary: x) auto

lemma join_snoc:
  "xs \<noteq> [] \<Longrightarrow> join sep (xs @ [y]) = join sep xs @ sep @ y"
  by (cases xs) (simp_all add: join_Cons)

lemma generate_files_section_body:
  "generate_files_section g = ''## File Contents'' @ nl @ files_body (files g)"
proof -
  have "concat (map (\<lambda>y. nl @ y) (concat (map (\<lambda>fc. [format_file fc, []]) fcs))) =
        files_body fcs" for fcs
    by (induction fcs) (simp_all add: files_body_def file_markdown_def)
  then show ?thesis
    by (simp add: generate_files_section_def join_Cons)
qed

lemma header_parts_nonempty: "header_parts g \<noteq> []"
  by (simp add: header_parts_def)

lemma generate_eq: "generate g = header_with_section g @ files_body (files g)"
  by (simp add: generate_def header_with_section_def join_snoc header_parts_nonempty
      generate_files_section_body)

lemma length_files_body:
  "length (files_body fcs) = sum_list (map (\<lambda>fc. Suc (length (file_markdown fc))) fcs)"
  by (induction fcs) (simp_all add: files_body_def nl_def)

lemma chunk_loop_fits:
  "int (sz + sum_list (map (\<lambda>fc. length (file_markdown fc)) fcs)) \<le> max_chars \<Longrightarrow>
   chunk_loop g max_chars fcs chunks parts sz =
     (chunks, parts @ map file_markdown fcs,
      sz + sum_list (map (\<lambda>fc. length (file_markdown fc)) fcs))"
proof (induction fcs arbitrary: parts sz)
  case Nil
  then show ?case by simp
next
  case (Cons fc fcs)
  have fits: "\<not> int (sz + length (file_markdown fc)) > max_chars"
    using Cons.prems by simp
  have "int (sz + length (file_markdown fc)
           + sum_list (map (\<lambda>fc. length (file_markdown fc)) fcs)) \<le> max_chars"
    using Cons.prems by (simp add: add.assoc)
  from Cons.IH [OF this] fits show ?case
    by (simp add: Let_def add.assoc)
qed

lemma join_nl_parts:
  "join nl (h # map file_markdown fcs) = h @ files_body fcs"
  by (simp add: join_Cons files_body_def comp_def)

text \<open>
  C6. When \<open>max_chars\<close> is strictly larger than the length of the document that
  \<open>generate\<close> produces, \<open>generate_chunked\<close> returns exactly one chunk, and that chunk is
  the \<open>generate\<close> output, character for character.
\<close>

theorem generate_chunked_single_chunk:
  "int (length (generate g)) < max_chars \<Longrightarrow> generate_chunked g max_chars = [generate g]"
proof -
  assume big: "int (length (generate g)) < max_chars"
  let ?h = "header_with_section g"
  let ?s = "sum_list (map (\<lambda>fc. length (file_markdown fc)) (files g))"
  have "?s \<le> sum_list (map (\<lambda>fc. Suc (length (file_markdown fc))) (files g))"
    by (rule sum_list_mono) simp
  then have "length ?h + ?s \<le> length (generate g)"
    by (simp add: generate_eq length_files_body)
  with big have "int (length ?h + ?s) \<le> max_chars"
    by linarith
  from chunk_loop_fits [OF this]
  have "chunk_parts g max_chars = [?h # map file_markdown (files g)]"
    by (simp add: chunk_parts_def)
  then show ?thesis
    by (simp add: generate_chunked_def join_nl_parts generate_eq)
qed

theorem generate_chunked_single_chunk_witness:
  "int (length (generate (example_generator [example_file ''a'']))) < 1000 \<and>
   generate_chunked (example_generator [example_file ''a'']) 1000 =
     [generate (example_generator [example_file ''a''])]"
proof -
  have h: "int (length (generate (example_generator [example_file ''a'']))) < 1000"
    by (simp add: generator_defs)
  show ?thesis
    using h generate_chunked_single_chunk [OF h] by simp
qed

lemma chunk_loop_parts_nonempty:
  "parts \<noteq> [] \<Longrightarrow> chunk_loop g m fcs chunks parts sz = (cs', ps', sz') \<Longrightarrow> ps' \<noteq> []"
proof (induction fcs arbitrary: chunks parts sz)
  case Nil
  then show ?case by simp
next
  case (Cons fc fcs)
  show ?case
  proof (cases "int (sz + length (file_markdown fc)) > m")
    case True
    with Cons.prems
    have "chunk_loop g m fcs
        (if length parts > 1 \<or> sz > length (header_with_section g)
           then chunks @ [parts] else chunks)
        [continuation_header g, file_markdown fc]
        (length (continuation_header g) + length (file_markdown fc)) = (cs', ps', sz')"
      by (simp add: Let_def)
    from Cons.IH [OF _ this] show ?thesis by simp
  next
    case False
    with Cons.prems
    have "chunk_loop g m fcs chunks (parts @ [file_markdown fc])
        (sz + length (file_markdown fc)) = (cs', ps', sz')"
      by (simp add: Let_def)
    from Cons.IH [OF _ this] show ?thesis by simp
  qed
qed

lemma chunk_loop_blocks:
  "parts \<noteq> [] \<Longrightarrow> chunk_loop g m fcs chunks parts sz = (cs', ps', sz') \<Longrightarrow>
   concat (map tl (cs' @ [ps'])) = concat (map tl (chunks @ [parts])) @ map file_markdown fcs"
proof (induction fcs arbitrary: chunks parts sz)
  case Nil
  then show ?case by simp
next
  case (Cons fc fcs)
  show ?case
  proof (cases "int (sz + length (file_markdown fc)) > m")
    case True
    let ?chunks = "if length parts > 1 \<or> sz > length (header_with_section g)
           then chunks @ [parts] else chunks"
    from Cons.prems True
    have run: "chunk_loop g m fcs ?chunks [continuation_header g, file_markdown fc]
        (length (continuation_header g) + length (file_markdown fc)) = (cs', ps', sz')"
      by (simp add: Let_def)
    have dropped: "concat (map tl ?chunks) = concat (map tl (chunks @ [parts]))"
      using Cons.prems(1) by (cases parts) auto
    from Cons.IH [OF _ run] dropped show ?thesis
      by simp
  next
    case False
    with Cons.prems
    have run: "chunk_loop g m fcs chunks (parts @ [file_markdown fc])
        (sz + length (file_markdown fc)) = (cs', ps', sz')"
      by (simp add: Let_def)
    from Cons.IH [OF _ run] Cons.prems(1) show ?thesis
      by simp
  qed
qed

lemma chunk_loop_seeded:
  "seeded g parts \<Longrightarrow> list_all (seeded g) chunks \<Longrightarrow>
   chunk_loop g m fcs chunks parts sz = (cs', ps', sz') \<Longrightarrow>
   list_all (seeded g) (cs' @ [ps'])"
proof (induction fcs arbitrary: chunks parts sz)
  case Nil
  then show ?case by simp
next
  case (Cons fc fcs)
  have snoc: "seeded g (parts @ [file_markdown fc])"
    using Cons.prems(1) by (simp add: seeded_def)
  have fresh: "seeded g [continuation_header g, file_markdown fc]"
    by (simp add: seeded_def)
  show ?case
  proof (cases "int (sz + length (file_markdown fc)) > m")
    case True
    let ?chunks = "if length parts > 1 \<or> sz > length (header_with_section g)
           then chunks @ [parts] else chunks"
    from Cons.prems True
    have run: "chunk_loop g m fcs ?chunks [continuation_header g, file_markdown fc]
        (length (continuation_header g) + length (file_markdown fc)) = (cs', ps', sz')"
      by (simp add: Let_def seeded_def)
    have "list_all (seeded g) ?chunks"
      using Cons.prems(1,2) by simp
    from Cons.IH [OF fresh this run] show ?thesis .
  next
    case False
    with Cons.prems
    have run: "chunk_loop g m fcs chunks (parts @ [file_markdown fc])
        (sz + length (file_markdown fc)) = (cs', ps', sz')"
      by (simp add: Let_def)
    from Cons.IH [OF snoc Cons.prems(2) run] show ?thesis .
  qed
qed

lemma chunk_parts_loop:
  "\<exists>cs ps sz. chunk_loop g m (files g) [] [header_with_section g]
       (length (header_with_section g)) = (cs, ps, sz) \<and> ps \<noteq> [] \<and> chunk_parts g m = cs @ [ps]"
proof -
  obtain cs ps sz where run: "chunk_loop g m (files g) [] [header_with_section g]
       (length (header_with_section g)) = (cs, ps, sz)"
    by (cases "chunk_loop g m (files g) [] [header_with_section g]
       (length (header_with_section g))") auto
  then have "ps \<noteq> []"
    using chunk_loop_parts_nonempty [of "[header_with_section g]"] by blast
  with run show ?thesis
    by (simp add: chunk_parts_def)
qed

lemma strip_seed:
  "ps \<noteq> [] \<Longrightarrow> drop (length (hd ps)) (join nl ps) = concat (map (\<lambda>y. nl @ y) (tl ps))"
  by (cases ps) (simp_all add: join_Cons)

lemma stripped_chunks:
  "list_all (seeded g) pss \<Longrightarrow>
   concat (map (\<lambda>ps. drop (length (hd ps)) (join nl ps)) pss) =
   concat (map (\<lambda>y. nl @ y) (concat (map tl pss)))"
  by (induction pss) (simp_all add: strip_seed seeded_def)

text \<open>
  C3. \<open>generate_chunked\<close> never splits a file's formatted block: every chunk is the join
  of a header (the document header or the continuation header) and whole blocks, the blocks
  of all chunks in order are exactly the blocks of the added files in order, each once, and
  the chunks with their headers removed concatenate to the file-section content of
  \<open>generate\<close>.
\<close>

theorem generate_chunked_whole_blocks:
  "generate_chunked g max_chars = map (join nl) (chunk_parts g max_chars) \<and>
   list_all (seeded g) (chunk_parts g max_chars) \<and>
   concat (map tl (chunk_parts g max_chars)) = map file_markdown (files g) \<and>
   ''## File Contents'' @ nl @
     concat (map (\<lambda>ps. drop (length (hd ps)) (join nl ps)) (chunk_parts g max_chars)) =
     generate_files_section g"
proof -
  obtain cs ps sz where run: "chunk_loop g max_chars (files g) [] [header_with_section g]
       (length (header_with_section g)) = (cs, ps, sz)"
    and parts: "chunk_parts g max_chars = cs @ [ps]"
    using chunk_parts_loop by blast
  have seeds: "list_all (seeded g) (chunk_parts g max_chars)"
    using chunk_loop_seeded [OF _ _ run] by (simp add: parts seeded_def)
  have blocks: "concat (map tl (chunk_parts g max_chars)) = map file_markdown (files g)"
    using chunk_loop_blocks [OF _ run] by (simp add: parts)
  have "concat (map (\<lambda>ps. drop (length (hd ps)) (join nl ps)) (chunk_parts g max_chars)) =
        files_body (files g)"
    by (simp add: stripped_chunks [OF seeds] blocks files_body_def comp_def)
  then show ?thesis
    using seeds blocks by (simp add: generate_chunked_def generate_files_section_body)
qed




text \<open>
  With \<open>max_chars = 20\<close> both 30-character blocks are too long, and each is alone in its
  chunk.
\<close>

lemma oversized_blocks_example:
  "length (file_markdown (example_file ''a'')) = 30 \<and>
   chunk_parts (example_generator [example_file ''a'', example_file ''b'']) 20 =
     [[continuation_header (example_generator [example_file ''a'', example_file ''b'']),
       file_markdown (example_file ''a'')],
      [continuation_header (example_generator [example_file ''a'', example_file ''b'']),
       file_markdown (example_file ''b'')]]"
  by (simp add: chunk_parts_def generator_defs)

text \<open>
  C4, at an input where the first file does not fit beside the header: the chunk that is
  returned starts with the continuation header, and the document header (title, tree,
  table of contents) is in no chunk.
\<close>

theorem generate_chunked_drops_header:
  "generate_chunked (example_generator [example_file ''a'']) 50 =
     [join nl [''# Repository: r (continued)'', [], ''## File Contents (continued)'', [],
               ''### a'', ''**Path:** '' @ [CHR 0x60] @ ''a'' @ [CHR 0x60], [],
               backticks, [], backticks, []]] \<and>
   header_with_section (example_generator [example_file ''a'']) =
     join nl [''# Repository: r'', [], ''## File Contents'', []]"
  by (simp add: generate_chunked_def chunk_parts_def generator_defs)


section \<open>Properties of the file discovery\<close>

lemma discover_loop_step:
  "\<exists>fs' rd'. discover_loop fd (q # ps) fs rd = discover_loop fd ps fs' rd' \<and>
     (fs' = fs \<or> (fs' = fs @ [q] \<and> (readme_like q \<or> is_text_file fd (path_name q)))) \<and>
     (rd' = rd \<or> (rd' = Some q \<and> readme_like q))"
proof (cases "readme_like q")
  case readme: True
  show ?thesis
  proof (cases "rd = None \<or> lower (path_name q) = ''readme.md''")
    case True
    with readme have "discover_loop fd (q # ps) fs rd = discover_loop fd ps fs (Some q)"
      by (simp add: readme_like_def)
    with readme show ?thesis by blast
  next
    case False
    then obtain y where "rd = Some y" and "lower (path_name q) \<noteq> ''readme.md''"
      by auto
    with readme have "discover_loop fd (q # ps) fs rd = discover_loop fd ps (fs @ [q]) rd"
      by (simp add: readme_like_def)
    with readme show ?thesis by blast
  qed
next
  case other: False
  show ?thesis
  proof (cases "is_text_file fd (path_name q)")
    case True
    with other have "discover_loop fd (q # ps) fs rd = discover_loop fd ps (fs @ [q]) rd"
      by (auto simp: readme_like_def)
    with True show ?thesis by blast
  next
    case False
    with other have "discover_loop fd (q # ps) fs rd = discover_loop fd ps fs rd"
      by (auto simp: readme_like_def)
    then show ?thesis by blast
  qed
qed

lemma discover_loop_files:
  "p \<in> set (fst (discover_loop fd ps fs rd)) \<Longrightarrow>
   p \<in> set fs \<or> (p \<in> set ps \<and> (readme_like p \<or> is_text_file fd (path_name p)))"
proof (induction ps arbitrary: fs rd)
  case Nil
  then show ?case by simp
next
  case (Cons q ps)
  obtain fs' rd' where step: "discover_loop fd (q # ps) fs rd = discover_loop fd ps fs' rd'"
    and fs': "fs' = fs \<or> (fs' = fs @ [q] \<and> (readme_like q \<or> is_text_file fd (path_name q)))"
    using discover_loop_step by blast
  from Cons.prems step have "p \<in> set (fst (discover_loop fd ps fs' rd'))"
    by simp
  from Cons.IH [OF this] fs' show ?case
    by auto
qed

lemma discover_loop_readme:
  "snd (discover_loop fd ps fs rd) = Some r \<Longrightarrow> rd = Some r \<or> (r \<in> set ps \<and> readme_like r)"
proof (induction ps arbitrary: fs rd)
  case Nil
  then show ?case by simp
next
  case (Cons q ps)
  obtain fs' rd' where step: "discover_loop fd (q # ps) fs rd = discover_loop fd ps fs' rd'"
    and rd': "rd' = rd \<or> (rd' = Some q \<and> readme_like q)"
    using discover_loop_step by blast
  from Cons.prems step have "snd (discover_loop fd ps fs' rd') = Some r"
    by simp
  from Cons.IH [OF this] rd' show ?case
    by auto
qed

lemma discover_files_eq:
  "discover_files fd =
     (case promoted_readme fd of
        None \<Rightarrow> sort_files (fst (discover_loop fd (walked fd) [] None))
      | Some r \<Rightarrow> r # sort_files (fst (discover_loop fd (walked fd) [] None)))"
proof -
  define st where "st = discover_loop fd (walked fd) [] None"
  have "discover_files fd =
          (case st of (fs, readme_file) \<Rightarrow>
             (case readme_file of None \<Rightarrow> sort_files fs | Some r \<Rightarrow> r # sort_files fs))"
    unfolding st_def discover_files_def walked_def ..
  moreover have "promoted_readme fd = snd st"
    by (simp only: st_def promoted_readme_def)
  moreover have "discover_loop fd (walked fd) [] None = st"
    by (simp only: st_def)
  ultimately show ?thesis
    by (cases st) (simp split: option.splits)
qed

lemma sorted_sort_files: "sorted (map (\<lambda>p. lower (path_str p)) (sort_files fs))"
  by (simp add: sort_files_def)

lemma set_sort_files: "set (sort_files fs) = set fs"
  by (simp add: sort_files_def)

lemma precedes_sorted_le:
  "sorted (map k xs) \<Longrightarrow> precedes xs a b \<Longrightarrow> k a \<le> k b"
  by (induction xs) auto

lemma sorted_less_precedes:
  "sorted (map k xs) \<Longrightarrow> a \<in> set xs \<Longrightarrow> b \<in> set xs \<Longrightarrow> k a < k b \<Longrightarrow> precedes xs a b"
proof (induction xs)
  case Nil
  then show ?case by simp
next
  case (Cons x xs)
  show ?case
  proof (cases "x = a")
    case True
    with Cons.prems have "b \<in> set xs" by auto
    with True show ?thesis by simp
  next
    case False
    with Cons.prems have a: "a \<in> set xs" by simp
    have "b \<noteq> x"
    proof
      assume "b = x"
      with Cons.prems(1) a have "k b \<le> k a" by auto
      with Cons.prems(4) show False by simp
    qed
    with Cons.prems have "b \<in> set xs" by simp
    with Cons a show ?thesis by simp
  qed
qed

lemma sorted_precedes_iff:
  assumes "sorted (map k xs)" "a \<in> set xs" "b \<in> set xs" "k a \<noteq> k b"
  shows "precedes xs a b \<longleftrightarrow> k a < k b"
  using assms precedes_sorted_le [of k xs a b] sorted_less_precedes [of k xs a b]
  by (auto simp: less_le)

lemma readme_choice_Nil: "readme_choice rd [] = rd"
  by (simp add: readme_choice_def split: option.splits)

lemma readme_choice_skip:
  "\<not> readme_like q \<Longrightarrow> readme_choice rd (q # ps) = readme_choice rd ps"
  by (auto simp: readme_choice_def readme_md_def split: option.splits)

lemma readme_choice_keep:
  "readme_like q \<Longrightarrow> \<not> readme_md q \<Longrightarrow>
   readme_choice (Some y) (q # ps) = readme_choice (Some y) ps"
  by (simp add: readme_choice_def)

lemma readme_choice_take:
  "readme_like q \<Longrightarrow> rd = None \<or> readme_md q \<Longrightarrow>
   readme_choice rd (q # ps) = readme_choice (Some q) ps"
  by (auto simp: readme_choice_def readme_md_def)

lemma discover_loop_readme_file:
  "snd (discover_loop fd ps fs rd) = readme_choice rd ps"
proof (induction ps arbitrary: fs rd)
  case Nil
  then show ?case by (simp add: readme_choice_Nil)
next
  case (Cons q ps)
  show ?case
  proof (cases "readme_like q")
    case readme: True
    show ?thesis
    proof (cases "rd = None \<or> lower (path_name q) = ''readme.md''")
      case True
      with readme have "discover_loop fd (q # ps) fs rd = discover_loop fd ps fs (Some q)"
        by (simp add: readme_like_def)
      then have "snd (discover_loop fd (q # ps) fs rd) = readme_choice (Some q) ps"
        by (simp only: Cons.IH)
      moreover from readme True have "rd = None \<or> readme_md q"
        by (simp add: readme_md_def)
      ultimately show ?thesis
        using readme by (simp add: readme_choice_take)
    next
      case False
      then obtain y where rd: "rd = Some y" and md: "lower (path_name q) \<noteq> ''readme.md''"
        by auto
      with readme have "discover_loop fd (q # ps) fs rd = discover_loop fd ps (fs @ [q]) rd"
        by (simp add: readme_like_def)
      then have "snd (discover_loop fd (q # ps) fs rd) = readme_choice rd ps"
        by (simp only: Cons.IH)
      moreover from md have "\<not> readme_md q"
        by (simp add: readme_md_def)
      ultimately show ?thesis
        using readme rd by (simp add: readme_choice_keep)
    qed
  next
    case other: False
    obtain fs' where "discover_loop fd (q # ps) fs rd = discover_loop fd ps fs' rd"
      using other by (cases "is_text_file fd (path_name q)") (auto simp: readme_like_def)
    then have "snd (discover_loop fd (q # ps) fs rd) = readme_choice rd ps"
      by (simp only: Cons.IH)
    with other show ?thesis
      by (simp add: readme_choice_skip)
  qed
qed

lemma promoted_readme_preferred: "promoted_readme fd = preferred_readme (walked fd)"
  by (simp add: promoted_readme_def preferred_readme_def discover_loop_readme_file
      readme_choice_def)

lemma preferred_readme_None:
  "preferred_readme ps = None \<longleftrightarrow> filter readme_like ps = []"
  by (auto simp: preferred_readme_def readme_md_def filter_empty_conv)

text \<open>
  C1, as amended. When the walk yields a root-level file whose name starts with
  \<open>readme\<close>, the list that \<open>discover_files\<close> returns begins with the preferred README:
  the file named \<open>README.md\<close> (case-insensitively) when the walk yields one, otherwise the
  first such file of the walk. For any two files \<open>a\<close> and \<open>b\<close> of the list, neither of
  them the preferred README, whose lower-cased root-relative paths differ, \<open>a\<close> precedes
  \<open>b\<close> if and only if the lower-cased path of \<open>a\<close> is less than that of \<open>b\<close>.
\<close>

theorem discover_files_order:
  "(preferred_readme (walked fd) = None \<longleftrightarrow> (\<forall>p \<in> set (walked fd). \<not> readme_like p)) \<and>
   (case preferred_readme (walked fd) of
      None \<Rightarrow> True
    | Some r \<Rightarrow> discover_files fd \<noteq> [] \<and> hd (discover_files fd) = r) \<and>
   (\<forall>a b. a \<in> set (discover_files fd) \<and> b \<in> set (discover_files fd) \<and>
          preferred_readme (walked fd) \<noteq> Some a \<and> preferred_readme (walked fd) \<noteq> Some b \<and>
          lower (path_str a) \<noteq> lower (path_str b) \<longrightarrow>
          (precedes (discover_files fd) a b \<longleftrightarrow> lower (path_str a) < lower (path_str b)))"
proof -
  let ?fs = "sort_files (fst (discover_loop fd (walked fd) [] None))"
  let ?k = "\<lambda>p. lower (path_str p)"
  have none: "preferred_readme (walked fd) = None \<longleftrightarrow> (\<forall>p \<in> set (walked fd). \<not> readme_like p)"
    by (simp add: preferred_readme_None filter_empty_conv)
  have first: "discover_files fd \<noteq> [] \<and> hd (discover_files fd) = r"
    if "preferred_readme (walked fd) = Some r" for r
    using that by (simp add: discover_files_eq promoted_readme_preferred)
  have order: "precedes (discover_files fd) a b \<longleftrightarrow> ?k a < ?k b"
    if "a \<in> set (discover_files fd)" and "b \<in> set (discover_files fd)"
      and "preferred_readme (walked fd) \<noteq> Some a" and "preferred_readme (walked fd) \<noteq> Some b"
      and "?k a \<noteq> ?k b" for a b
  proof -
    have in_fs: "a \<in> set ?fs" "b \<in> set ?fs"
      using that(1-4)
      by (auto simp: discover_files_eq promoted_readme_preferred split: option.splits)
    have "precedes (discover_files fd) a b = precedes ?fs a b"
      using that(3,4)
      by (auto simp: discover_files_eq promoted_readme_preferred split: option.splits)
    moreover have "precedes ?fs a b \<longleftrightarrow> ?k a < ?k b"
      using sorted_precedes_iff [of ?k ?fs a b] sorted_sort_files in_fs that(5) by blast
    ultimately show ?thesis
      by simp
  qed
  from none first order show ?thesis
    by (simp split: option.splits)
qed

text \<open>
  C1 as stated fails. With \<open>README.txt\<close> and \<open>a.py\<close> at the root and no \<open>README.md\<close>,
  \<open>README.txt\<close> is moved to the front, before \<open>a.py\<close>, although \<open>a.py\<close> has the
  smaller lower-cased path. With \<open>A.py\<close> and \<open>a.py\<close> in one directory, \<open>A.py\<close> precedes
  \<open>a.py\<close> although their lower-cased paths are equal.
\<close>

theorem discover_files_order_counterexample:
  "discover_files (example_discovery [File ''README.txt'', File ''a.py'']) =
     [[''README.txt''], [''a.py'']] \<and>
   precedes (discover_files (example_discovery [File ''README.txt'', File ''a.py'']))
     [''README.txt''] [''a.py''] \<and>
   lower (path_str [''a.py'']) < lower (path_str [''README.txt'']) \<and>
   discover_files (example_discovery [File ''A.py'', File ''a.py'']) =
     [[''A.py''], [''a.py'']] \<and>
   precedes (discover_files (example_discovery [File ''A.py'', File ''a.py'']))
     [''A.py''] [''a.py''] \<and>
   lower (path_str [''A.py'']) = lower (path_str [''a.py''])"
  by (simp add: discovery_defs)

text \<open>
  C1, as amended, at a repository whose walk yields \<open>z.txt\<close>, \<open>README.txt\<close>,
  \<open>README.md\<close> and \<open>src/B.py\<close>.
\<close>

theorem discover_files_order_witness:
  "preferred_readme (walked (example_discovery
      [File ''z.txt'', File ''README.txt'', File ''README.md'',
       Dir ''src'' True [File ''B.py'']])) = Some [''README.md''] \<and>
   hd (discover_files (example_discovery
      [File ''z.txt'', File ''README.txt'', File ''README.md'',
       Dir ''src'' True [File ''B.py'']])) = [''README.md''] \<and>
   precedes (discover_files (example_discovery
      [File ''z.txt'', File ''README.txt'', File ''README.md'',
       Dir ''src'' True [File ''B.py'']]))
     [''src'', ''B.py''] [''z.txt''] \<and>
   lower (path_str [''src'', ''B.py'']) < lower (path_str [''z.txt''])"
proof -
  let ?fd = "example_discovery
      [File ''z.txt'', File ''README.txt'', File ''README.md'', Dir ''src'' True [File ''B.py'']]"
  have out: "discover_files ?fd = [[''README.md''], [''src'', ''B.py''], [''z.txt'']]"
    by (simp add: discovery_defs)
  have rd: "preferred_readme (walked ?fd) = Some [''README.md'']"
    by (simp add: preferred_readme_def readme_md_def readme_like_def walked_def discovery_defs)
  have k: "lower (path_str [''src'', ''B.py'']) < lower (path_str [''z.txt''])"
    by (simp add: discovery_defs)
  from discover_files_order [of ?fd] out rd k
  show ?thesis by simp
qed

text \<open>
  C2, at a root directory whose listing yields \<open>README.txt\<close> before \<open>README.md\<close>:
  \<open>README.txt\<close> passes the extension criterion, and it is not in the returned list.
  In the other listing order it is.
\<close>

theorem discover_files_drops_readme_txt:
  "discover_files (example_discovery [File ''README.txt'', File ''README.md'']) =
     [[''README.md'']] \<and>
   is_text_file (example_discovery [File ''README.txt'', File ''README.md'']) ''README.txt'' \<and>
   discover_files (example_discovery [File ''README.md'', File ''README.txt'']) =
     [[''README.md''], [''README.txt'']]"
  by (simp add: discovery_defs)

text \<open>
  C10, at a root directory whose listing yields \<open>readme.bin\<close> before \<open>README.md\<close>: the
  returned list does not hold \<open>readme.bin\<close>. In the other listing order it does.
\<close>

theorem discover_files_drops_readme_bin:
  "discover_files (example_discovery [File ''readme.bin'', File ''README.md'']) =
     [[''README.md'']] \<and>
   discover_files (example_discovery [File ''README.md'', File ''readme.bin'']) =
     [[''README.md''], [''readme.bin'']]"
  by (simp add: discovery_defs)

text \<open>
  C8, at a configuration with \<open>exclude_dirs = {"docs"}\<close>: \<open>node_modules\<close> is a default
  excluded entry, it is not excluded in the run, and the file below it is discovered.
\<close>

theorem exclude_dirs_replace_defaults:
  "''node_modules'' \<in> DEFAULT_EXCLUDE_DIRS \<and>
   \<not> should_exclude_dir
       (discovery
          (GitToMarkdownConverter_init
             (ConverterConfig_default\<lparr>config_exclude_dirs := Some {''docs''}\<rparr>) False)
          (example_repository
             [Dir ''docs'' True [File ''d.md''], Dir ''node_modules'' True [File ''i.js''],
              File ''a.py''] 0))
       ''node_modules'' \<and>
   discover_files
     (discovery
        (GitToMarkdownConverter_init
           (ConverterConfig_default\<lparr>config_exclude_dirs := Some {''docs''}\<rparr>) False)
        (example_repository
           [Dir ''docs'' True [File ''d.md''], Dir ''node_modules'' True [File ''i.js''],
            File ''a.py''] 0)) =
     [[''a.py''], [''node_modules'', ''i.js'']]"
  by (simp add: converter_defs discovery_defs)

lemma pdf_not_text_file:
  assumes "''.pdf'' \<notin> text_extensions fd"
    and "\<forall>name \<in> include_filenames fd. \<not> is_pdf_file name"
    and "is_pdf_file n"
  shows "\<not> is_text_file fd n"
  using assms by (auto simp: is_text_file_def is_pdf_file_def Let_def)

text \<open>
  C7, as amended. With PDF support disabled, \<open>.pdf\<close> not among the configured extensions
  and no always-include filename with a \<open>.pdf\<close> suffix, a file whose lower-cased suffix is
  \<open>.pdf\<close> gets no line in the tree, wherever it is, and it is in the list of
  \<open>discover_files\<close> at most as a root-level file whose name starts with \<open>readme\<close>.
\<close>

theorem pdf_excluded_when_disabled:
  assumes "\<not> include_pdf fd"
    and "''.pdf'' \<notin> text_extensions fd"
    and "\<forall>name \<in> include_filenames fd. \<not> is_pdf_file name"
    and "is_pdf_file n"
  shows "build_entry fd prefix current_depth max_depth is_last (File n) = [] \<and>
         build_entry fd prefix current_depth max_depth is_last (Special n) = [] \<and>
         (\<forall>p \<in> set (discover_files fd). path_name p = n \<longrightarrow> readme_like p)"
proof -
  have no_text: "\<not> is_text_file fd n"
    using assms(2-4) by (rule pdf_not_text_file)
  have "readme_like p" if "p \<in> set (discover_files fd)" and "path_name p = n" for p
  proof (cases "promoted_readme fd = Some p")
    case True
    then show ?thesis
      using discover_loop_readme [of fd "walked fd" "[]" None p]
      by (simp add: promoted_readme_def)
  next
    case False
    with that(1) have "p \<in> set (fst (discover_loop fd (walked fd) [] None))"
      by (auto simp: discover_files_eq set_sort_files split: option.splits)
    from discover_loop_files [OF this] no_text that(2) show ?thesis
      by simp
  qed
  with no_text assms(1) show ?thesis
    by simp
qed

text \<open>
  C7 as stated fails: with PDF support disabled and \<open>.pdf\<close> given as an extra extension,
  \<open>docs/a.pdf\<close> is in the file list and in the tree; and with the default configuration a
  root-level \<open>readme.pdf\<close> is in the file list.
\<close>

theorem pdf_excluded_counterexample:
  "\<not> include_pdf (FileDiscovery_init (Directory ''repo'' True [Dir ''docs'' True [File ''a.pdf'']])
        None None None False (Some {''.pdf''})) \<and>
   discover_files (FileDiscovery_init (Directory ''repo'' True [Dir ''docs'' True [File ''a.pdf'']])
        None None None False (Some {''.pdf''})) = [[''docs'', ''a.pdf'']] \<and>
   build_entry (FileDiscovery_init (Directory ''repo'' True [Dir ''docs'' True [File ''a.pdf'']])
        None None None False (Some {''.pdf''})) [] 0 None True (File ''a.pdf'') =
     [connector_last @ ''a.pdf''] \<and>
   discover_files (example_discovery [File ''readme.pdf'']) = [[''readme.pdf'']]"
  by (simp add: discovery_defs)

text \<open>
  C7, as amended, at the default configuration and a root with \<open>a.pdf\<close> and \<open>b.py\<close>.
\<close>

theorem pdf_excluded_when_disabled_witness:
  "build_entry (example_discovery [File ''a.pdf'', File ''b.py'']) [] 0 None False (File ''a.pdf'') = [] \<and>
   [''a.pdf''] \<notin> set (discover_files (example_discovery [File ''a.pdf'', File ''b.py'']))"
proof -
  let ?fd = "example_discovery [File ''a.pdf'', File ''b.py'']"
  have h1: "\<not> include_pdf ?fd" and h2: "''.pdf'' \<notin> text_extensions ?fd"
    and h3: "\<forall>name \<in> include_filenames ?fd. \<not> is_pdf_file name"
    and h4: "is_pdf_file ''a.pdf''"
    by (simp_all add: discovery_defs)
  have "\<not> readme_like [''a.pdf'']"
    by (simp add: readme_like_def discovery_defs)
  with pdf_excluded_when_disabled [OF h1 h2 h3 h4, of "[]" 0 None False]
  show ?thesis
    by (auto simp: path_name_def)
qed

section \<open>Properties of the converter\<close>






end
